theory Spec2Isabelle
  imports Main
begin

section \<open>Python values\<close>

text \<open>
  A Python \<open>str\<close> is a sequence of Unicode code points: \<open>len\<close>, slicing and \<open>in\<close> count
  code points, not bytes, so a string is a list of code points (natural numbers).
  \<open>lit\<close> turns an ASCII literal into such a list; a character beyond ASCII is written
  as its code point (\<open>233\<close> is U+00E9, e with acute accent).
\<close>

type_synonym pystr = "nat list"

definition lit :: "string \<Rightarrow> pystr" where
  "lit s = map of_char s"

text \<open>A slice \<open>s[i:j]\<close> with \<open>0 \<le> i \<le> j\<close>; it never raises, it is cut at the end of \<open>s\<close>.\<close>

definition py_slice :: "'a list \<Rightarrow> nat \<Rightarrow> nat \<Rightarrow> 'a list" where
  "py_slice s i j = take (j - i) (drop i s)"

text \<open>\<open>range(0, n, step)\<close> for a positive step: \<open>0, step, 2 * step, ...\<close> below \<open>n\<close>.\<close>

definition py_range :: "nat \<Rightarrow> nat \<Rightarrow> nat list" where
  "py_range n step = map (\<lambda>k. k * step) [0..<(n + (step - 1)) div step]"

text \<open>The exceptions that the modelled code can meet.\<close>

datatype pyerr =
    APIError          \<comment> \<open>a request to the spreadsheet service failed\<close>
  | AgentError        \<comment> \<open>a completion request failed\<close>
  | TelegramError     \<comment> \<open>sending a message failed\<close>
  | AttributeError
  | KeyError
  | TypeError
  | JSONDecodeError
  | OSError


section \<open>The messaging bot (agentcodeur/go.py)\<close>

text \<open>
  \<open>handle_message\<close> asks the code-generation agent and relays the last message of the
  chat. What the agent call gives is an input of the model: the call raised (or the chat
  history was empty), the content is \<open>None\<close>, or the content is a text.
  The chat keeps the messages sent so far, in order. Sending is a remote call: each call
  of \<open>reply_text\<close> takes the next flag of \<open>send_faults\<close>, and raises when the flag is
  \<open>True\<close>; an empty schedule means that every call succeeds.
\<close>

datatype chat_outcome = ChatRaised | ContentNone | ContentText pystr

record chat =
  sent :: "pystr list"
  send_faults :: "bool list"

definition reply_text :: "pystr \<Rightarrow> chat \<Rightarrow> (pyerr + unit) \<times> chat" where
  "reply_text msg c =
     (case send_faults c of
        True # fs \<Rightarrow> (Inl TelegramError, c\<lparr>send_faults := fs\<rparr>)
      | _ \<Rightarrow> (Inr (), c\<lparr>sent := sent c @ [msg], send_faults := tl (send_faults c)\<rparr>))"

text \<open>The loop \<open>for i in range(0, len(contenu), 4000): reply_text(contenu[i:i+4000])\<close>.\<close>

fun send_chunks :: "pystr \<Rightarrow> nat list \<Rightarrow> chat \<Rightarrow> (pyerr + unit) \<times> chat" where
  "send_chunks contenu [] c = (Inr (), c)"
| "send_chunks contenu (i # rest) c =
     (case reply_text (py_slice contenu i (i + 4000)) c of
        (Inl e, c') \<Rightarrow> (Inl e, c')
      | (Inr _, c') \<Rightarrow> send_chunks contenu rest c')"

definition generation_error_message :: pystr where
  "generation_error_message =
     [10060] @ lit '' Erreur lors de la g'' @ [233] @ lit ''n'' @ [233] @ lit ''ration.''"

text \<open>
  The \<open>except Exception\<close> branch sends the error message; an exception raised there
  leaves the handler.
\<close>

definition handle_message :: "chat_outcome \<Rightarrow> chat \<Rightarrow> (pyerr + unit) \<times> chat" where
  "handle_message outcome c =
     (case outcome of
        ChatRaised \<Rightarrow> reply_text generation_error_message c
      | ContentNone \<Rightarrow> reply_text generation_error_message c
      | ContentText contenu \<Rightarrow>
          (case send_chunks contenu (py_range (length contenu) 4000) c of
             (Inl e, c') \<Rightarrow> reply_text generation_error_message c'
           | (Inr u, c') \<Rightarrow> (Inr u, c')))"


section \<open>Python text operations\<close>

text \<open>
  \<open>str.lower()\<close> maps every code point on its own, and an ASCII code point to its
  ASCII lower case. What it gives for a code point beyond ASCII is the Unicode table of
  the interpreter (one code point can become several, and capital sigma depends on its
  neighbours): the model takes it as a parameter, a function of the whole string and the
  position. The other things of the interpreter and of the spreadsheet library that the
  code relies on without defining them are parameters as well, collected in \<open>pylib\<close>;
  every theorem below holds for every such library.
\<close>

datatype pyfloat = Double nat
  \<comment> \<open>a float, given by the 64 bits of the double; comparing and printing floats is left to \<open>pylib\<close>\<close>

datatype cell = CInt int | CFloat pyfloat | CStr pystr

type_synonym pydict = "(pystr \<times> cell) list"

datatype json =
    JNull | JBool bool | JInt int | JFloat pyfloat | JStr pystr
  | JList "json list" | JObject "(pystr \<times> json) list"

type_synonym pyconfig = "(pystr \<times> json) list"

record pylib =
  lower_beyond_ascii :: "pystr \<Rightarrow> nat \<Rightarrow> pystr"
    \<comment> \<open>the lower case of the code point at a position of a string, beyond ASCII\<close>
  float_gt :: "pyfloat \<Rightarrow> int \<Rightarrow> bool"
    \<comment> \<open>\<open>x > n\<close> for a float \<open>x\<close> and an int \<open>n\<close>\<close>
  float_str :: "pyfloat \<Rightarrow> pystr"
    \<comment> \<open>\<open>str(x)\<close> for a float \<open>x\<close>\<close>
  get_all_records :: "cell list list \<Rightarrow> pydict list"
    \<comment> \<open>gspread's reading of a sheet: one dict per row below the header row\<close>
  update_from_non_dict :: "pyconfig \<Rightarrow> json \<Rightarrow> pyerr + pyconfig"
    \<comment> \<open>\<open>dict.update\<close> with an argument that is not a dict\<close>

definition ascii_lower :: "nat \<Rightarrow> nat" where
  "ascii_lower c = (if 65 \<le> c \<and> c \<le> 90 then c + 32 else c)"

fun lower_from :: "pylib \<Rightarrow> pystr \<Rightarrow> nat \<Rightarrow> pystr \<Rightarrow> pystr" where
  "lower_from L s i [] = []"
| "lower_from L s i (c # cs) =
     (if c < 128 then [ascii_lower c] else lower_beyond_ascii L s i) @ lower_from L s (Suc i) cs"

definition py_lower :: "pylib \<Rightarrow> pystr \<Rightarrow> pystr" where
  "py_lower L s = lower_from L s 0 s"

text \<open>\<open>sub in s\<close> for two strings: \<open>sub\<close> occurs in \<open>s\<close> at some position.\<close>

fun py_in :: "pystr \<Rightarrow> pystr \<Rightarrow> bool" where
  "py_in sub [] = (sub = [])"
| "py_in sub (c # cs) = (take (length sub) (c # cs) = sub \<or> py_in sub cs)"

text \<open>\<open>s.split('\n')\<close>: the pieces between line feeds (code point 10), never an empty list.\<close>

fun split_nl :: "pystr \<Rightarrow> pystr list" where
  "split_nl [] = [[]]"
| "split_nl (c # cs) =
     (if c = 10 then [] # split_nl cs
      else (case split_nl cs of [] \<Rightarrow> [[c]] | l # ls \<Rightarrow> (c # l) # ls))"

text \<open>\<open>'\n'.join(xs)\<close>.\<close>

fun join_nl :: "pystr list \<Rightarrow> pystr" where
  "join_nl [] = []"
| "join_nl [a] = a"
| "join_nl (a # b # rest) = a @ [10] @ join_nl (b # rest)"

text \<open>\<open>s.strip()\<close> removes the white space of Unicode at both ends.\<close>

definition is_space :: "nat \<Rightarrow> bool" where
  "is_space c =
     ((9 \<le> c \<and> c \<le> 13) \<or> (28 \<le> c \<and> c \<le> 32) \<or> c = 133 \<or> c = 160 \<or> c = 5760 \<or>
      (8192 \<le> c \<and> c \<le> 8202) \<or> c = 8232 \<or> c = 8233 \<or> c = 8239 \<or> c = 8287 \<or> c = 12288)"

definition py_strip :: "pystr \<Rightarrow> pystr" where
  "py_strip s = rev (dropWhile is_space (rev (dropWhile is_space s)))"

text \<open>\<open>str(n)\<close> for an int, and \<open>str(v)\<close> for the value of a cell.\<close>

fun str_nat :: "nat \<Rightarrow> pystr" where
  "str_nat n = (if n < 10 then [48 + n] else str_nat (n div 10) @ [48 + n mod 10])"

declare str_nat.simps [simp del]

definition str_int :: "int \<Rightarrow> pystr" where
  "str_int i = (if i < 0 then 45 # str_nat (nat (- i)) else str_nat (nat i))"

definition py_str :: "pylib \<Rightarrow> cell \<Rightarrow> pystr" where
  "py_str L v = (case v of CInt n \<Rightarrow> str_int n | CFloat x \<Rightarrow> float_str L x | CStr s \<Rightarrow> s)"

text \<open>
  A dict is the list of its items in insertion order. \<open>d.get(k)\<close> is \<open>dict_get d k\<close>
  (\<open>None\<close> for a missing key); \<open>d[k] = v\<close> keeps the place of a key that is there and
  puts a new key last; \<open>d.update(e)\<close> stores the items of \<open>e\<close> one after the other.
\<close>

definition dict_get :: "('k \<times> 'v) list \<Rightarrow> 'k \<Rightarrow> 'v option" where
  "dict_get d k = map_of d k"

definition dict_set :: "('k \<times> 'v) list \<Rightarrow> 'k \<Rightarrow> 'v \<Rightarrow> ('k \<times> 'v) list" where
  "dict_set d k v =
     (if k \<in> fst ` set d then map (\<lambda>(k', v'). if k' = k then (k', v) else (k', v')) d
      else d @ [(k, v)])"

fun dict_update :: "('k \<times> 'v) list \<Rightarrow> ('k \<times> 'v) list \<Rightarrow> ('k \<times> 'v) list" where
  "dict_update d [] = d"
| "dict_update d ((k, v) # e) = dict_update (dict_set d k v) e"


section \<open>Configuration (AgentChefProjet._load_config)\<close>

text \<open>
  The file system, as far as \<open>_load_config\<close> sees it: what \<open>open\<close> and \<open>json.load\<close>
  find at a path, and whether a file can be created there. The environment variables
  are a map. A JSON object is the dict that \<open>json.load\<close> makes of it.
\<close>

datatype config_file =
    NoFile                 \<comment> \<open>\<open>open\<close> raises FileNotFoundError\<close>
  | Unreadable             \<comment> \<open>\<open>open\<close> raises another OSError\<close>
  | NotJson                \<comment> \<open>\<open>json.load\<close> raises JSONDecodeError\<close>
  | JsonObject pyconfig    \<comment> \<open>a JSON object\<close>
  | JsonOther json         \<comment> \<open>a JSON value that is not an object\<close>

record filesystem =
  files :: "pystr \<Rightarrow> config_file"
  write_denied :: "pystr \<Rightarrow> bool"

datatype log_record = LogInfo pystr | LogWarning pystr | LogError pystr pyerr

definition getenv :: "(pystr \<Rightarrow> pystr option) \<Rightarrow> pystr \<Rightarrow> pystr \<Rightarrow> pystr" where
  "getenv env name dflt = (case env name of None \<Rightarrow> dflt | Some v \<Rightarrow> v)"

definition default_config :: "(pystr \<Rightarrow> pystr option) \<Rightarrow> pyconfig" where
  "default_config env =
     [(lit ''openrouter_api_key'', JStr (getenv env (lit ''OPENROUTER_API_KEY'') [])),
      (lit ''google_creds_path'',
         JStr (getenv env (lit ''GOOGLE_CREDS_PATH'') (lit ''credentials.json''))),
      (lit ''sheet_name'', JStr (getenv env (lit ''SHEET_NAME'') (lit ''Gestion_Projets''))),
      (lit ''email_config'', JObject
         [(lit ''smtp_server'', JStr (lit ''smtp.gmail.com'')),
          (lit ''smtp_port'', JInt 587),
          (lit ''email'', JStr (getenv env (lit ''EMAIL_USER'') [])),
          (lit ''password'', JStr (getenv env (lit ''EMAIL_PASS'') []))]),
      (lit ''monitoring'', JObject
         [(lit ''check_interval_hours'', JInt 24),
          (lit ''stagnation_alert_days'', JInt 7),
          (lit ''urgent_alert_days'', JInt 14)])]"

definition load_config ::
  "pylib \<Rightarrow> (pystr \<Rightarrow> pystr option) \<Rightarrow> pystr \<Rightarrow> filesystem \<Rightarrow>
     (pyerr + pyconfig) \<times> filesystem \<times> log_record list" where
  "load_config L env config_path fs =
     (case files fs config_path of
        JsonObject config \<Rightarrow> (Inr (dict_update (default_config env) config), fs, [])
      | JsonOther j \<Rightarrow> (update_from_non_dict L (default_config env) j, fs, [])
      | NotJson \<Rightarrow> (Inl JSONDecodeError, fs, [])
      | Unreadable \<Rightarrow> (Inl OSError, fs, [])
      | NoFile \<Rightarrow>
          (if write_denied fs config_path
           then (Inl OSError, fs,
                 [LogInfo (lit ''Config file not found, using default config'')])
           else (Inr (default_config env),
                 fs\<lparr>files := (files fs)(config_path := JsonObject (default_config env))\<rparr>,
                 [LogInfo (lit ''Config file not found, using default config'')])))"


section \<open>The spreadsheet\<close>

text \<open>
  The sheet is the list of its rows, a row the list of its cells; a cell holds the Python
  value written to it, and a cell outside the lists is blank. Rows and columns count from
  1, as in gspread. The grid limits of the service are not modelled on their own: every
  request can fail, whatever the reason, as the fault schedule of the agent says.
\<close>

definition blank :: cell where
  "blank = CStr []"

definition cell_at :: "cell list list \<Rightarrow> nat \<Rightarrow> nat \<Rightarrow> cell" where
  "cell_at g r c =
     (if 1 \<le> r \<and> r \<le> length g \<and> 1 \<le> c \<and> c \<le> length (g ! (r - 1))
      then g ! (r - 1) ! (c - 1) else blank)"

definition pad :: "nat \<Rightarrow> 'a \<Rightarrow> 'a list \<Rightarrow> 'a list" where
  "pad n x xs = xs @ replicate (n - length xs) x"

text \<open>\<open>sheet.update_cell(r, c, v)\<close>\<close>

definition update_cell :: "nat \<Rightarrow> nat \<Rightarrow> cell \<Rightarrow> cell list list \<Rightarrow> unit \<times> cell list list" where
  "update_cell r c v g =
     (let g' = pad r [] g
      in ((), g'[r - 1 := (pad c blank (g' ! (r - 1)))[c - 1 := v]]))"

text \<open>\<open>sheet.clear()\<close>\<close>

definition clear :: "cell list list \<Rightarrow> unit \<times> cell list list" where
  "clear g = ((), [])"

text \<open>\<open>sheet.insert_row(values, index)\<close>: the rows from \<open>index\<close> on move down.\<close>

definition insert_row :: "cell list \<Rightarrow> nat \<Rightarrow> cell list list \<Rightarrow> unit \<times> cell list list" where
  "insert_row values index g =
     (let g' = pad (index - 1) [] g
      in ((), take (index - 1) g' @ [values] @ drop (index - 1) g'))"

text \<open>\<open>sheet.append_row(values)\<close>: the new row comes after the last row that is not blank.\<close>

definition blank_row :: "cell list \<Rightarrow> bool" where
  "blank_row row = list_all (\<lambda>c. c = blank) row"

definition append_row :: "cell list \<Rightarrow> cell list list \<Rightarrow> unit \<times> cell list list" where
  "append_row values g = ((), rev (dropWhile blank_row (rev g)) @ [values])"

text \<open>\<open>sheet.row_values(r)\<close>: the texts of row \<open>r\<close>, without the blank cells at its end.\<close>

definition row_values :: "pylib \<Rightarrow> nat \<Rightarrow> cell list list \<Rightarrow> pystr list \<times> cell list list" where
  "row_values L r g =
     (let row = (if 1 \<le> r \<and> r \<le> length g then g ! (r - 1) else [])
      in (rev (dropWhile (\<lambda>t. t = []) (rev (map (py_str L) row))), g))"


section \<open>The agent (AgentChefProjet)\<close>

text \<open>
  The part of the agent's state that the methods below read or write: the configuration,
  the sheet, the cache of projects, and what the logger has received. \<open>faults\<close> is the
  fate of the coming requests to the spreadsheet service: each request takes the next
  flag and raises when the flag is \<open>True\<close>; with an empty schedule every request succeeds.
  The answers of the three language-model agents, and the date of the clock, are inputs
  of each method. Timestamps in the returned dicts are left out.
\<close>

record agent_chef_projet =
  config :: pyconfig
  grid :: "cell list list"
  faults :: "bool list"
  projects_cache :: "pydict list"
  logged :: "log_record list"

definition sheet_call ::
  "(cell list list \<Rightarrow> 'a \<times> cell list list) \<Rightarrow> agent_chef_projet \<Rightarrow>
     (pyerr + 'a) \<times> agent_chef_projet" where
  "sheet_call request s =
     (case faults s of
        True # rest \<Rightarrow> (Inl APIError, s\<lparr>faults := rest\<rparr>)
      | _ \<Rightarrow> (case request (grid s) of
                (a, g') \<Rightarrow> (Inr a, s\<lparr>grid := g', faults := tl (faults s)\<rparr>)))"

definition logger :: "log_record \<Rightarrow> agent_chef_projet \<Rightarrow> agent_chef_projet" where
  "logger r s = s\<lparr>logged := logged s @ [r]\<rparr>"

text \<open>What a language-model agent answers: the request raised, or the answer is not a
  text (\<open>generate_reply\<close> can give \<open>None\<close> or a dict), or it is a text.\<close>

datatype reply = Raised | NonText | Text pystr

subsection \<open>setup_sheet_headers\<close>

definition headers :: "pystr list" where
  "headers =
     [lit ''Nom_Projet'', lit ''Statut'', lit ''Priorit'' @ [233], lit ''Description'',
      lit ''Prochaine_Action'', lit ''Deadline'', lit ''Date_Creation'',
      lit ''Derni'' @ [232] @ lit ''re_MAJ'', lit ''Jours_Stagnation'',
      lit ''Alerte'', lit ''Progression_%'', lit ''Notes'']"

definition headers_error :: pystr where
  "headers_error = [10060] @ lit '' Erreur en-t'' @ [234] @ lit ''tes : ''"

definition headers_done :: pystr where
  "headers_done = [128203] @ lit '' En-t'' @ [234] @ lit ''tes configur'' @ [233] @ lit ''s''"

definition setup_sheet_headers :: "pylib \<Rightarrow> agent_chef_projet \<Rightarrow> agent_chef_projet" where
  "setup_sheet_headers L s =
     (case sheet_call (row_values L 1) s of
        (Inl e, s1) \<Rightarrow> logger (LogError headers_error e) s1
      | (Inr existing_headers, s1) \<Rightarrow>
          if existing_headers = [] \<or> existing_headers \<noteq> headers then
            (case sheet_call clear s1 of
               (Inl e, s2) \<Rightarrow> logger (LogError headers_error e) s2
             | (Inr _, s2) \<Rightarrow>
                 (case sheet_call (insert_row (map CStr headers) 1) s2 of
                    (Inl e, s3) \<Rightarrow> logger (LogError headers_error e) s3
                  | (Inr _, s3) \<Rightarrow> logger (LogInfo headers_done) s3))
          else s1)"

subsection \<open>get_all_projects, refresh_projects_cache\<close>

definition projects_error :: pystr where
  "projects_error =
     [10060] @ lit '' Erreur r'' @ [233] @ lit ''cup'' @ [233] @ lit ''ration projets : ''"

definition get_all_projects :: "pylib \<Rightarrow> agent_chef_projet \<Rightarrow> pydict list \<times> agent_chef_projet" where
  "get_all_projects L s =
     (case sheet_call (\<lambda>g. (get_all_records L g, g)) s of
        (Inl e, s1) \<Rightarrow> ([], logger (LogError projects_error e) s1)
      | (Inr records, s1) \<Rightarrow> (records, s1))"

definition refresh_projects_cache :: "pylib \<Rightarrow> agent_chef_projet \<Rightarrow> agent_chef_projet" where
  "refresh_projects_cache L s =
     (case get_all_projects L s of (projects, s1) \<Rightarrow> s1\<lparr>projects_cache := projects\<rparr>)"

subsection \<open>ajouter_projet\<close>

definition default_action :: pystr where
  "default_action = lit ''Analyser les besoins''"

text \<open>The loop over the lines, left at the first line that passes the test.\<close>

fun first_action :: "pylib \<Rightarrow> pystr list \<Rightarrow> pystr option" where
  "first_action L [] = None"
| "first_action L (line # lines) =
     (if py_in (lit ''action'') (py_lower L line) \<and> length line > 10
      then Some (take 100 (py_strip line))
      else first_action L lines)"

definition prochaine_action :: "pylib \<Rightarrow> pystr \<Rightarrow> pystr" where
  "prochaine_action L project_analysis =
     (if py_in (lit ''action'') (py_lower L project_analysis)
      then (case first_action L (split_nl project_analysis) of
              None \<Rightarrow> default_action
            | Some a \<Rightarrow> a)
      else default_action)"

definition a_faire :: pystr where
  "a_faire = [192] @ lit '' faire''"

definition analyse_ia :: pystr where
  "analyse_ia = [10, 10] @ lit ''Analyse IA : ''"

text \<open>
  The body of the \<open>try\<close> up to the list \<open>row_data\<close>. The three agents are asked in turn,
  and a request that raises ends the body. \<open>project_analysis.lower()\<close> raises
  AttributeError on an answer that is not a text, and \<open>project_summary[:200]\<close> raises
  on a summary that is not a text.
\<close>

definition row_data ::
  "pylib \<Rightarrow> pystr \<Rightarrow> pystr \<Rightarrow> int \<Rightarrow> pystr \<Rightarrow> pystr \<Rightarrow> reply \<Rightarrow> reply \<Rightarrow> reply \<Rightarrow> pystr \<Rightarrow>
     pyerr + cell list" where
  "row_data L nom_projet description priorite deadline notes
       project_analysis planning_advice project_summary current_date =
     (if project_analysis = Raised \<or> planning_advice = Raised \<or> project_summary = Raised
      then Inl AgentError
      else (case project_analysis of
              Text analysis \<Rightarrow>
                (case project_summary of
                   Text summary \<Rightarrow>
                     Inr [CStr nom_projet,
                          CStr a_faire,
                          CInt priorite,
                          CStr description,
                          CStr (prochaine_action L analysis),
                          CStr (if deadline \<noteq> [] then deadline else []),
                          CStr current_date,
                          CStr current_date,
                          CInt 0,
                          CStr [],
                          CInt 0,
                          CStr (notes @ analyse_ia @ take 200 summary @ lit ''...'')]
                 | _ \<Rightarrow> Inl TypeError)
            | _ \<Rightarrow> Inl AttributeError))"

datatype add_result =
    Added pystr reply reply reply   \<comment> \<open>status success: name, analysis, planning, summary\<close>
  | AddFailed pystr pyerr           \<comment> \<open>status error: name, exception\<close>

definition add_error :: pystr where
  "add_error = [10060] @ lit '' Erreur ajout projet : ''"

definition add_done :: pystr where
  "add_done = [9989] @ lit '' Projet ajout'' @ [233] @ lit '' : ''"

definition ajouter_projet ::
  "pylib \<Rightarrow> pystr \<Rightarrow> pystr \<Rightarrow> int \<Rightarrow> pystr \<Rightarrow> pystr \<Rightarrow> reply \<Rightarrow> reply \<Rightarrow> reply \<Rightarrow> pystr \<Rightarrow>
     agent_chef_projet \<Rightarrow> add_result \<times> agent_chef_projet" where
  "ajouter_projet L nom_projet description priorite deadline notes
       project_analysis planning_advice project_summary current_date s =
     (case row_data L nom_projet description priorite deadline notes
             project_analysis planning_advice project_summary current_date of
        Inl e \<Rightarrow> (AddFailed nom_projet e, logger (LogError add_error e) s)
      | Inr row \<Rightarrow>
          (case sheet_call (append_row row) s of
             (Inl e, s1) \<Rightarrow> (AddFailed nom_projet e, logger (LogError add_error e) s1)
           | (Inr _, s1) \<Rightarrow>
               (Added nom_projet project_analysis planning_advice project_summary,
                logger (LogInfo (add_done @ nom_projet)) (refresh_projects_cache L s1))))"

subsection \<open>mettre_a_jour_projet\<close>

text \<open>\<open>enumerate(projects, 2)\<close> with the \<open>break\<close> at the first project of that name.\<close>

fun find_project_row :: "pystr \<Rightarrow> pydict list \<Rightarrow> nat \<Rightarrow> nat option" where
  "find_project_row nom_projet [] i = None"
| "find_project_row nom_projet (project # projects) i =
     (if dict_get project (lit ''Nom_Projet'') = Some (CStr nom_projet) then Some i
      else find_project_row nom_projet projects (Suc i))"

definition columns :: "(pystr \<times> nat) list" where
  "columns =
     [(lit ''statut'', 2), (lit ''priorite'', 3), (lit ''description'', 4),
      (lit ''prochaine_action'', 5), (lit ''deadline'', 6), (lit ''notes'', 12)]"

text \<open>The loop over \<open>kwargs.items()\<close>; a request that raises ends it.\<close>

fun update_fields ::
  "pylib \<Rightarrow> nat \<Rightarrow> (pystr \<times> cell) list \<Rightarrow> agent_chef_projet \<Rightarrow>
     (pyerr + unit) \<times> agent_chef_projet" where
  "update_fields L project_row [] s = (Inr (), s)"
| "update_fields L project_row ((field, v) # kwargs) s =
     (case dict_get columns (py_lower L field) of
        None \<Rightarrow> update_fields L project_row kwargs s
      | Some col \<Rightarrow>
          (case sheet_call (update_cell project_row col v) s of
             (Inl e, s1) \<Rightarrow> (Inl e, s1)
           | (Inr _, s1) \<Rightarrow> update_fields L project_row kwargs s1))"

datatype update_result =
    Updated pystr reply        \<comment> \<open>status success: name, analysis\<close>
  | NotFound pystr             \<comment> \<open>status error, with the message that the project is not found\<close>
  | UpdateFailed pystr pyerr   \<comment> \<open>status error: name, exception\<close>

definition update_error :: pystr where
  "update_error = [10060] @ lit '' Erreur mise '' @ [224] @ lit '' jour : ''"

definition update_done :: pystr where
  "update_done = [9989] @ lit '' Projet mis '' @ [224] @ lit '' jour : ''"

definition mettre_a_jour_projet ::
  "pylib \<Rightarrow> pystr \<Rightarrow> (pystr \<times> cell) list \<Rightarrow> reply \<Rightarrow> pystr \<Rightarrow> agent_chef_projet \<Rightarrow>
     update_result \<times> agent_chef_projet" where
  "mettre_a_jour_projet L nom_projet kwargs update_analysis current_date s =
     (case get_all_projects L s of
        (projects, s1) \<Rightarrow>
          (case find_project_row nom_projet projects 2 of
             None \<Rightarrow> (NotFound nom_projet, s1)
           | Some project_row \<Rightarrow>
               (case update_fields L project_row kwargs s1 of
                  (Inl e, s2) \<Rightarrow>
                    (UpdateFailed nom_projet e, logger (LogError update_error e) s2)
                | (Inr _, s2) \<Rightarrow>
                    (case sheet_call (update_cell project_row 8 (CStr current_date)) s2 of
                       (Inl e, s3) \<Rightarrow>
                         (UpdateFailed nom_projet e, logger (LogError update_error e) s3)
                     | (Inr _, s3) \<Rightarrow>
                         if update_analysis = Raised
                         then (UpdateFailed nom_projet AgentError,
                               logger (LogError update_error AgentError) s3)
                         else (Updated nom_projet update_analysis,
                               logger (LogInfo (update_done @ nom_projet)) s3)))))"

subsection \<open>rechercher_projet\<close>

text \<open>\<open>project.get(key, '').lower()\<close>: a cell that holds a number has no \<open>lower\<close>.\<close>

definition field_lower :: "pylib \<Rightarrow> pydict \<Rightarrow> pystr \<Rightarrow> pyerr + pystr" where
  "field_lower L project key =
     (case dict_get project key of
        None \<Rightarrow> Inr (py_lower L [])
      | Some (CStr t) \<Rightarrow> Inr (py_lower L t)
      | Some _ \<Rightarrow> Inl AttributeError)"

text \<open>The test of the loop; \<open>or\<close> does not evaluate what follows a true operand.\<close>

definition project_matches :: "pylib \<Rightarrow> pystr \<Rightarrow> pydict \<Rightarrow> pyerr + bool" where
  "project_matches L query_lower project =
     (case field_lower L project (lit ''Nom_Projet'') of
        Inl e \<Rightarrow> Inl e
      | Inr nom \<Rightarrow>
          if py_in query_lower nom then Inr True
          else (case field_lower L project (lit ''Description'') of
                  Inl e \<Rightarrow> Inl e
                | Inr description \<Rightarrow>
                    if py_in query_lower description then Inr True
                    else (case field_lower L project (lit ''Notes'') of
                            Inl e \<Rightarrow> Inl e
                          | Inr notes \<Rightarrow> Inr (py_in query_lower notes))))"

fun search_projects :: "pylib \<Rightarrow> pystr \<Rightarrow> pydict list \<Rightarrow> pydict list \<Rightarrow> pyerr + pydict list" where
  "search_projects L query_lower [] results = Inr results"
| "search_projects L query_lower (project # projects) results =
     (case project_matches L query_lower project of
        Inl e \<Rightarrow> Inl e
      | Inr found \<Rightarrow>
          search_projects L query_lower projects
            (if found then results @ [project] else results))"

text \<open>\<open>rechercher_projet\<close> has no \<open>try\<close>: an exception of the loop reaches the caller.\<close>

definition rechercher_projet ::
  "pylib \<Rightarrow> pystr \<Rightarrow> agent_chef_projet \<Rightarrow> (pyerr + pydict list) \<times> agent_chef_projet" where
  "rechercher_projet L query s =
     (case get_all_projects L s of
        (projects, s1) \<Rightarrow> (search_projects L (py_lower L query) projects [], s1))"

subsection \<open>start_monitoring: monitor_projects\<close>

definition termine :: pystr where
  "termine = lit ''Termin'' @ [233]"

definition annule :: pystr where
  "annule = lit ''Annul'' @ [233]"

text \<open>\<open>isinstance(jours_stagnation, (int, float)) and jours_stagnation > 7\<close>\<close>

definition stagnant :: "pylib \<Rightarrow> cell \<Rightarrow> bool" where
  "stagnant L jours_stagnation =
     (case jours_stagnation of
        CInt n \<Rightarrow> n > 7
      | CFloat x \<Rightarrow> float_gt L x 7
      | CStr t \<Rightarrow> False)"

definition alert_line :: "pylib \<Rightarrow> cell \<Rightarrow> cell \<Rightarrow> pystr" where
  "alert_line L nom jours_stagnation =
     [9888] @ lit '' '' @ py_str L nom @ lit '' : '' @ py_str L jours_stagnation @
     lit '' jours sans mise '' @ [224] @ lit '' jour''"

text \<open>The loop over the projects; \<open>project['Nom_Projet']\<close> raises KeyError without the key.\<close>

fun collect_alerts :: "pylib \<Rightarrow> pydict list \<Rightarrow> pystr list \<Rightarrow> pyerr + pystr list" where
  "collect_alerts L [] alerts = Inr alerts"
| "collect_alerts L (project # projects) alerts =
     (if dict_get project (lit ''Statut'') \<notin> {Some (CStr termine), Some (CStr annule)} then
        (let jours_stagnation =
               (case dict_get project (lit ''Jours_Stagnation'') of None \<Rightarrow> CInt 0 | Some v \<Rightarrow> v)
         in if stagnant L jours_stagnation then
              (case dict_get project (lit ''Nom_Projet'') of
                 None \<Rightarrow> Inl KeyError
               | Some nom \<Rightarrow>
                   collect_alerts L projects (alerts @ [alert_line L nom jours_stagnation]))
            else collect_alerts L projects alerts)
      else collect_alerts L projects alerts)"

definition alerts_found :: pystr where
  "alerts_found =
     [128680] @ lit '' Alertes d'' @ [233] @ lit ''tect'' @ [233] @ lit ''es :'' @ [10]"

definition monitoring_error :: pystr where
  "monitoring_error = [10060] @ lit '' Erreur monitoring : ''"

definition monitor_projects :: "pylib \<Rightarrow> agent_chef_projet \<Rightarrow> agent_chef_projet" where
  "monitor_projects L s =
     (case get_all_projects L s of
        (projects, s1) \<Rightarrow>
          (case collect_alerts L projects [] of
             Inl e \<Rightarrow> logger (LogError monitoring_error e) s1
           | Inr alerts \<Rightarrow>
               if alerts \<noteq> [] then logger (LogWarning (alerts_found @ join_nl alerts)) s1
               else s1))"


section \<open>A concrete library\<close>

text \<open>
  The concrete inputs below run with this library. Its \<open>lower\<close> leaves a code point
  beyond ASCII as it is, and its reading of the sheet gives, for every row below the
  header row and up to the last row that is not blank, the dict of the header texts and
  the cells of the row as they are stored. This is what Python and gspread do on the
  inputs used here: their texts are ASCII or already lower case beyond ASCII, and no
  text cell of theirs reads as a number.
\<close>

definition table_records :: "(pyfloat \<Rightarrow> pystr) \<Rightarrow> cell list list \<Rightarrow> pydict list" where
  "table_records fstr g =
     (case rev (dropWhile blank_row (rev g)) of
        [] \<Rightarrow> []
      | header # rows \<Rightarrow>
          map (\<lambda>row. zip (map (\<lambda>c. case c of CInt n \<Rightarrow> str_int n
                                            | CFloat x \<Rightarrow> fstr x
                                            | CStr t \<Rightarrow> t) header)
                          (pad (length header) blank row)) rows)"

definition plain_lib :: pylib where
  "plain_lib =
     \<lparr>lower_beyond_ascii = (\<lambda>s i. [s ! i]),
      float_gt = (\<lambda>x n. False),
      float_str = (\<lambda>x. lit ''nan''),
      get_all_records = table_records (\<lambda>x. lit ''nan''),
      update_from_non_dict = (\<lambda>d j. Inl TypeError)\<rparr>"

text \<open>
  The next action as the specification words it: the first line that contains
  \<open>action\<close>, whatever the case of its letters, cut at 100 characters; the default
  when no line contains it.
\<close>

definition claimed_action :: "pylib \<Rightarrow> pystr \<Rightarrow> pystr" where
  "claimed_action L project_analysis =
     (case find (\<lambda>line. py_in (lit ''action'') (py_lower L line)) (split_nl project_analysis) of
        None \<Rightarrow> default_action
      | Some line \<Rightarrow> take 100 line)"


section \<open>Example data\<close>

text \<open>
  A project row as \<open>ajouter_projet\<close> writes it, an agent with a given configuration and
  sheet whose requests all succeed, and an environment without variables.
\<close>

definition site_web :: "cell list" where
  "site_web =
     [CStr (lit ''Site web''), CStr (lit ''En cours''), CInt 1, CStr (lit ''Refonte''),
      CStr (lit ''Analyser les besoins''), CStr (lit ''2025-12-01''),
      CStr (lit ''2025-01-01''), CStr (lit ''2025-01-01''), CInt 10, CStr [], CInt 0,
      CStr (lit ''vitrine'')]"

definition agent_with :: "pyconfig \<Rightarrow> cell list list \<Rightarrow> agent_chef_projet" where
  "agent_with cfg g = \<lparr>config = cfg, grid = g, faults = [], projects_cache = [], logged = []\<rparr>"

definition no_env :: "pystr \<Rightarrow> pystr option" where
  "no_env name = None"


text \<open>
  A file system with one configuration file, which sets the name of the sheet.
\<close>

definition suivi_override :: pyconfig where
  "suivi_override = [(lit ''sheet_name'', JStr (lit ''Suivi''))]"

definition suivi_files :: filesystem where
  "suivi_files =
     \<lparr>files = (\<lambda>path. if path = lit ''config.json'' then JsonObject suivi_override else NoFile),
      write_denied = (\<lambda>path. False)\<rparr>"


text \<open>
  The example of the specification: the project \<open>Site web\<close> added to a sheet that holds
  the header row only, with three agents that answer texts.
\<close>

definition site_web_agent :: agent_chef_projet where
  "site_web_agent = agent_with (default_config no_env) [map CStr headers]"

definition ajouter_site_web :: "add_result \<times> agent_chef_projet" where
  "ajouter_site_web =
     ajouter_projet plain_lib (lit ''Site web'') (lit ''Refonte'') 1 (lit ''2025-12-01'')
       (lit ''vitrine'') (Text (lit ''Action : lister les pages'')) (Text (lit ''Planning''))
       (Text (lit ''Resume'')) (lit ''2025-01-01'') site_web_agent"


text \<open>
  A project whose description cell holds the number 2025 and that has 5 days of
  stagnation; a finished project with 30 days of stagnation; and the configuration that
  results from an override file which sets the stagnation threshold to 3 days.
\<close>

definition bilan :: "cell list" where
  "bilan =
     [CStr (lit ''Bilan''), CStr (lit ''En cours''), CInt 2, CInt 2025,
      CStr (lit ''Analyser les besoins''), CStr [], CStr (lit ''2025-01-01''),
      CStr (lit ''2025-01-01''), CInt 5, CStr [], CInt 0, CStr (lit ''comptes'')]"

definition seuil_3 :: pyconfig where
  "seuil_3 =
     dict_update (default_config no_env)
       [(lit ''monitoring'', JObject
           [(lit ''check_interval_hours'', JInt 24),
            (lit ''stagnation_alert_days'', JInt 3),
            (lit ''urgent_alert_days'', JInt 14)])]"

definition archive :: "cell list" where
  "archive =
     [CStr (lit ''Archive''), CStr termine, CInt 3, CStr (lit ''Ancien site''),
      CStr (lit ''Analyser les besoins''), CStr [], CStr (lit ''2024-01-01''),
      CStr (lit ''2024-01-01''), CInt 30, CStr [], CInt 100, CStr (lit ''fini'')]"


section \<open>Chunked replies\<close>

lemma reply_text_no_fault:
  "True \<notin> set (send_faults c) \<Longrightarrow>
   reply_text msg c = (Inr (), c\<lparr>sent := sent c @ [msg], send_faults := tl (send_faults c)\<rparr>)"
  by (cases "send_faults c") (auto simp: reply_text_def)

lemma send_chunks_no_fault:
  "True \<notin> set (send_faults c) \<Longrightarrow>
   \<exists>c'. send_chunks contenu idx c = (Inr (), c') \<and>
        sent c' = sent c @ map (\<lambda>i. py_slice contenu i (i + 4000)) idx \<and>
        True \<notin> set (send_faults c')"
proof (induction idx arbitrary: c)
  case Nil
  then show ?case by simp
next
  case (Cons i rest)
  let ?c1 = "c\<lparr>sent := sent c @ [py_slice contenu i (i + 4000)],
                 send_faults := tl (send_faults c)\<rparr>"
  have step: "reply_text (py_slice contenu i (i + 4000)) c = (Inr (), ?c1)"
    using Cons.prems by (rule reply_text_no_fault)
  have "True \<notin> set (send_faults ?c1)"
    using Cons.prems by (cases "send_faults c") auto
  from Cons.IH [OF this] obtain c' where
    "send_chunks contenu rest ?c1 = (Inr (), c')"
    "sent c' = sent ?c1 @ map (\<lambda>i. py_slice contenu i (i + 4000)) rest"
    "True \<notin> set (send_faults c')"
    by blast
  then show ?case using step by simp
qed

lemma concat_slices:
  "concat (map (\<lambda>k. take n (drop (k * n) s)) [0..<m]) = take (m * n) s"
proof (induction m)
  case 0
  show ?case by simp
next
  case (Suc m)
  have "Suc m * n = m * n + n"
    by simp
  then have "take (Suc m * n) s = take (m * n) s @ take n (drop (m * n) s)"
    by (simp only: take_add)
  with Suc show ?case by simp
qed

lemma chunks_cover:
  assumes "0 < n"
  shows "concat (map (\<lambda>i. py_slice s i (i + n)) (py_range (length s) n)) = s"
proof -
  have "length s \<le> ((length s + (n - 1)) div n) * n"
  proof -
    have "(length s + (n - 1)) mod n < n"
      using assms by simp
    moreover have "((length s + (n - 1)) div n) * n + (length s + (n - 1)) mod n
                   = length s + (n - 1)"
      by simp
    ultimately show ?thesis by linarith
  qed
  then show ?thesis
    by (simp add: py_slice_def py_range_def o_def concat_slices)
qed

text \<open>
  C9. When no send fails, the messages that \<open>handle_message\<close> sends for a reply text
  are the consecutive slices of 4000 code points of the text, in order: the k-th message
  is the text from position \<open>4000 * k\<close> on, cut at 4000 code points; no message is longer
  than 4000; and the messages put together give the text back.
\<close>

theorem handle_message_chunks:
  assumes "True \<notin> set (send_faults c)"
  shows "\<exists>c' msgs. handle_message (ContentText contenu) c = (Inr (), c') \<and>
           sent c' = sent c @ msgs \<and>
           concat msgs = contenu \<and>
           (\<forall>m \<in> set msgs. length m \<le> 4000) \<and>
           (\<forall>k < length msgs. msgs ! k = take 4000 (drop (4000 * k) contenu))"
proof -
  let ?idx = "py_range (length contenu) 4000"
  let ?msgs = "map (\<lambda>i. py_slice contenu i (i + 4000)) ?idx"
  from send_chunks_no_fault [OF assms, of contenu ?idx] obtain c' where
    run: "send_chunks contenu ?idx c = (Inr (), c')" and
    out: "sent c' = sent c @ ?msgs"
    by blast
  have h: "handle_message (ContentText contenu) c = (Inr (), c')"
    using run by (simp add: handle_message_def)
  have cat: "concat ?msgs = contenu"
    by (rule chunks_cover) simp
  have len: "\<forall>m \<in> set ?msgs. length m \<le> 4000"
    by (auto simp: py_slice_def)
  have nth: "\<forall>k < length ?msgs. ?msgs ! k = take 4000 (drop (4000 * k) contenu)"
    by (simp add: py_slice_def py_range_def mult.commute)
  from h out cat len nth show ?thesis by blast
qed

theorem handle_message_chunks_witness:
  "True \<notin> set (send_faults \<lparr>sent = [], send_faults = []\<rparr>) \<and>
   (\<exists>c'. handle_message (ContentText (lit ''bonjour'')) \<lparr>sent = [], send_faults = []\<rparr>
            = (Inr (), c') \<and>
         concat (sent c') = lit ''bonjour'' \<and> (\<forall>m \<in> set (sent c'). length m \<le> 4000))"
proof -
  let ?c = "\<lparr>sent = [], send_faults = []\<rparr>"
  have ok: "True \<notin> set (send_faults ?c)"
    by simp
  from handle_message_chunks [OF ok, of "lit ''bonjour''"] obtain c' msgs where
    h: "handle_message (ContentText (lit ''bonjour'')) ?c = (Inr (), c')" and
    s: "sent c' = sent ?c @ msgs" and
    c: "concat msgs = lit ''bonjour''" and
    l: "\<forall>m \<in> set msgs. length m \<le> 4000"
    by blast
  from s have "sent c' = msgs"
    by simp
  with h c l ok show ?thesis
    by blast
qed


section \<open>The next action of a new project\<close>

lemma first_action_find:
  "first_action L lines =
     map_option (\<lambda>line. take 100 (py_strip line))
       (find (\<lambda>line. py_in (lit ''action'') (py_lower L line) \<and> 10 < length line) lines)"
  by (induction lines) simp_all

text \<open>
  C2, as the code has it. \<open>ajouter_projet\<close> looks for \<open>action\<close> in the lower-cased
  answer of the research agent. When it is there, the next action is the first line
  that contains \<open>action\<close>, whatever the case of its letters, and that is longer than 10
  characters; the line is stripped of the white space at its ends and then cut at 100
  characters. The default \<open>Analyser les besoins\<close> stands when no line passes, or when
  the lower-cased answer does not contain \<open>action\<close>.
\<close>

theorem prochaine_action_first_long_line:
  "prochaine_action L project_analysis =
     (if py_in (lit ''action'') (py_lower L project_analysis)
      then (case find (\<lambda>line. py_in (lit ''action'') (py_lower L line) \<and> 10 < length line)
                   (split_nl project_analysis) of
              None \<Rightarrow> default_action
            | Some line \<Rightarrow> take 100 (py_strip line))
      else default_action)"
  by (simp add: prochaine_action_def first_action_find split: option.split)

text \<open>
  C2 as it is worded, without the length test, fails on a text whose first line with \<open>action\<close>
  has 9 characters: the code takes the second line, and strips it.
\<close>

theorem prochaine_action_counterexample:
  "claimed_action plain_lib (lit ''Do Action'' @ [10] @ lit ''  Second action item here '')
     = lit ''Do Action'' \<and>
   prochaine_action plain_lib (lit ''Do Action'' @ [10] @ lit ''  Second action item here '')
     = lit ''Second action item here''"
  by (simp add: claimed_action_def prochaine_action_def lit_def py_lower_def ascii_lower_def
      py_strip_def is_space_def plain_lib_def)


section \<open>Requests to the spreadsheet service\<close>

lemma tl_no_fault: "True \<notin> set fs \<Longrightarrow> True \<notin> set (tl fs)"
  by (cases fs) auto

lemma sheet_call_ok:
  "True \<notin> set (faults s) \<Longrightarrow>
   sheet_call request s =
     (Inr (fst (request (grid s))), s\<lparr>grid := snd (request (grid s)), faults := tl (faults s)\<rparr>)"
  by (cases "faults s") (auto simp: sheet_call_def split: prod.split)

lemma headers_not_empty: "headers \<noteq> []"
  by (simp add: headers_def)

lemma sheet_call_read_grid:
  "grid (snd (sheet_call (\<lambda>g. (f g, g)) s)) = grid s"
  by (auto simp: sheet_call_def split: list.split bool.split)

lemma get_all_projects_grid: "grid (snd (get_all_projects L s)) = grid s"
  by (auto simp: get_all_projects_def sheet_call_def logger_def split: list.split bool.split)

lemma get_all_projects_records:
  "fst (get_all_projects L s) = [] \<or> fst (get_all_projects L s) = get_all_records L (grid s)"
  by (auto simp: get_all_projects_def sheet_call_def logger_def split: list.split bool.split)


lemma find_project_row_none:
  "\<forall>project \<in> set projects. dict_get project (lit ''Nom_Projet'') \<noteq> Some (CStr nom_projet) \<Longrightarrow>
   find_project_row nom_projet projects i = None"
  by (induction projects arbitrary: i) auto







lemma site_web_records:
  "get_all_records plain_lib [map CStr headers, site_web] = [zip headers site_web]"
  by (simp add: plain_lib_def table_records_def blank_row_def blank_def headers_def site_web_def
      pad_def lit_def)

lemma site_web_name:
  "dict_get (zip headers site_web) (lit ''Nom_Projet'') = Some (CStr (lit ''Site web''))"
  by (simp add: dict_get_def headers_def site_web_def lit_def)


section \<open>The header row\<close>

text \<open>
  C3. When the requests to the service succeed, \<open>setup_sheet_headers\<close> leaves the sheet
  as it is if the texts of row 1 are the canonical list of 12 headers; in every other
  case (no row 1, other texts, another order, more or fewer columns) the sheet becomes
  the canonical header row and nothing else.
\<close>

theorem setup_sheet_headers_enforces:
  assumes "True \<notin> set (faults s)"
  shows "grid (setup_sheet_headers L s) =
           (if fst (row_values L 1 (grid s)) = headers then grid s else [map CStr headers])"
proof -
  let ?s1 = "s\<lparr>grid := snd (row_values L 1 (grid s)), faults := tl (faults s)\<rparr>"
  have g1: "grid ?s1 = grid s"
    by (simp add: row_values_def Let_def)
  have f1: "True \<notin> set (faults ?s1)"
    using assms by (simp add: tl_no_fault)
  have c1: "sheet_call (row_values L 1) s = (Inr (fst (row_values L 1 (grid s))), ?s1)"
    using assms by (rule sheet_call_ok)
  let ?s2 = "?s1\<lparr>grid := snd (clear (grid ?s1)), faults := tl (faults ?s1)\<rparr>"
  have c2: "sheet_call clear ?s1 = (Inr (fst (clear (grid ?s1))), ?s2)"
    using f1 by (rule sheet_call_ok)
  have f2: "True \<notin> set (faults ?s2)"
    using f1 by (simp add: tl_no_fault)
  let ?ins = "insert_row (map CStr headers) 1"
  let ?s3 = "?s2\<lparr>grid := snd (?ins (grid ?s2)), faults := tl (faults ?s2)\<rparr>"
  have c3: "sheet_call ?ins ?s2 = (Inr (fst (?ins (grid ?s2))), ?s3)"
    using f2 by (rule sheet_call_ok)
  have g3: "grid ?s3 = [map CStr headers]"
    by (simp add: clear_def insert_row_def pad_def)
  show ?thesis
  proof (cases "fst (row_values L 1 (grid s)) = headers")
    case True
    then show ?thesis
      using c1 g1 headers_not_empty by (simp add: setup_sheet_headers_def)
  next
    case False
    then show ?thesis
      using c1 c2 c3 g3 by (simp add: setup_sheet_headers_def logger_def)
  qed
qed

theorem setup_sheet_headers_enforces_witness:
  "True \<notin> set (faults (agent_with (default_config no_env) [[CStr (lit ''Nom'')], site_web])) \<and>
   fst (row_values plain_lib 1
          (grid (agent_with (default_config no_env) [[CStr (lit ''Nom'')], site_web]))) \<noteq> headers \<and>
   grid (setup_sheet_headers plain_lib
          (agent_with (default_config no_env) [[CStr (lit ''Nom'')], site_web]))
     = [map CStr headers]"
proof -
  let ?s = "agent_with (default_config no_env) [[CStr (lit ''Nom'')], site_web]"
  have ok: "True \<notin> set (faults ?s)"
    by (simp add: agent_with_def)
  have differs: "fst (row_values plain_lib 1 (grid ?s)) \<noteq> headers"
    by (simp add: agent_with_def row_values_def py_str_def headers_def lit_def)
  from setup_sheet_headers_enforces [OF ok, of plain_lib] differs ok show ?thesis
    by simp
qed


section \<open>Updating a project\<close>

text \<open>
  C4. When no project read from the sheet has the name, \<open>mettre_a_jour_projet\<close> answers
  that the project is not found, and the sheet after the call is the sheet before it.
  This holds whatever the service does: a failed reading gives no project at all.
\<close>

theorem mettre_a_jour_projet_not_found:
  assumes "\<forall>project \<in> set (get_all_records L (grid s)).
             dict_get project (lit ''Nom_Projet'') \<noteq> Some (CStr nom_projet)"
  shows "fst (mettre_a_jour_projet L nom_projet kwargs update_analysis current_date s)
           = NotFound nom_projet \<and>
         grid (snd (mettre_a_jour_projet L nom_projet kwargs update_analysis current_date s))
           = grid s"
proof -
  obtain projects s1 where g: "get_all_projects L s = (projects, s1)"
    by (cases "get_all_projects L s")
  from get_all_projects_records [of L s] g
  have "projects = [] \<or> projects = get_all_records L (grid s)" by simp
  with assms have "\<forall>project \<in> set projects.
      dict_get project (lit ''Nom_Projet'') \<noteq> Some (CStr nom_projet)"
    by auto
  then have n: "find_project_row nom_projet projects 2 = None"
    by (rule find_project_row_none)
  from get_all_projects_grid [of L s] g have "grid s1 = grid s" by simp
  with g n show ?thesis by (simp add: mettre_a_jour_projet_def)
qed

theorem mettre_a_jour_projet_not_found_witness:
  "find_project_row (lit ''Inconnu'')
     (get_all_records plain_lib
        (grid (agent_with (default_config no_env) [map CStr headers, site_web]))) 2 = None \<and>
   fst (mettre_a_jour_projet plain_lib (lit ''Inconnu'') [(lit ''statut'', CStr termine)]
          (Text (lit ''ok'')) (lit ''2025-02-01'')
          (agent_with (default_config no_env) [map CStr headers, site_web]))
     = NotFound (lit ''Inconnu'') \<and>
   grid (snd (mettre_a_jour_projet plain_lib (lit ''Inconnu'') [(lit ''statut'', CStr termine)]
          (Text (lit ''ok'')) (lit ''2025-02-01'')
          (agent_with (default_config no_env) [map CStr headers, site_web])))
     = [map CStr headers, site_web]"
proof -
  let ?s = "agent_with (default_config no_env) [map CStr headers, site_web]"
  have g: "grid ?s = [map CStr headers, site_web]"
    by (simp add: agent_with_def)
  have inconnu: "lit ''Site web'' \<noteq> lit ''Inconnu''"
    by (simp add: lit_def)
  have other: "\<forall>project \<in> set (get_all_records plain_lib (grid ?s)).
      dict_get project (lit ''Nom_Projet'') \<noteq> Some (CStr (lit ''Inconnu''))"
    by (simp add: g site_web_records site_web_name inconnu)
  then have "find_project_row (lit ''Inconnu'') (get_all_records plain_lib (grid ?s)) 2 = None"
    by (rule find_project_row_none)
  with mettre_a_jour_projet_not_found [OF other, of "[(lit ''statut'', CStr termine)]"
      "Text (lit ''ok'')" "lit ''2025-02-01''"] g
  show ?thesis by simp
qed




section \<open>Loading the configuration\<close>

lemma map_of_replace_other:
  "k' \<noteq> k \<Longrightarrow>
   map_of (map (\<lambda>(a, b). if a = k then (a, v) else (a, b)) d) k' = map_of d k'"
  by (induction d) auto

lemma map_of_replace_same:
  "k \<in> fst ` set d \<Longrightarrow>
   map_of (map (\<lambda>(a, b). if a = k then (a, v) else (a, b)) d) k = Some v"
  by (induction d) auto

lemma dict_get_dict_set:
  "dict_get (dict_set d k v) k' = (if k' = k then Some v else dict_get d k')"
proof (cases "k \<in> fst ` set d")
  case True
  then show ?thesis
    by (simp add: dict_set_def dict_get_def map_of_replace_other map_of_replace_same)
next
  case False
  then have "map_of d k = None"
    by (simp add: map_of_eq_None_iff)
  with False show ?thesis
    by (auto simp: dict_set_def dict_get_def map_add_def split: option.split)
qed

lemma dict_get_Cons:
  "dict_get ((k0, v0) # e) k = (if k = k0 then Some v0 else dict_get e k)"
  by (simp add: dict_get_def)

lemma dict_get_dict_update:
  "distinct (map fst e) \<Longrightarrow>
   dict_get (dict_update d e) k =
     (case dict_get e k of Some v \<Rightarrow> Some v | None \<Rightarrow> dict_get d k)"
proof (induction e arbitrary: d)
  case Nil
  show ?case by (simp add: dict_get_def)
next
  case (Cons kv e)
  obtain k0 v0 where kv: "kv = (k0, v0)" by (cases kv)
  from Cons.prems kv have d: "distinct (map fst e)" and n: "k0 \<notin> fst ` set e"
    by auto
  from n have none: "dict_get e k0 = None"
    by (simp add: dict_get_def map_of_eq_None_iff)
  have "dict_get (dict_update d (kv # e)) k =
          (case dict_get e k of Some v \<Rightarrow> Some v | None \<Rightarrow> dict_get (dict_set d k0 v0) k)"
    using Cons.IH [OF d] kv by simp
  also have "\<dots> = (case dict_get (kv # e) k of Some v \<Rightarrow> Some v | None \<Rightarrow> dict_get d k)"
    using none kv by (auto simp: dict_get_dict_set dict_get_Cons split: option.split)
  finally show ?case .
qed

text \<open>
  C6. When the configuration file holds a JSON object, \<open>load_config\<close> returns a dict in
  which every key of the object has the value of the object, and every other key has
  what the built-in defaults give for it (a key of neither is absent). The merge is by
  the keys of the top level, and the file is left as it is. When there is no file at the
  path, and one can be created there, the defaults are written to the path and returned.
\<close>

theorem load_config_merge:
  "(files fs config_path = JsonObject override \<and> distinct (map fst override) \<longrightarrow>
      (\<exists>cfg. load_config L env config_path fs = (Inr cfg, fs, []) \<and>
             (\<forall>key. dict_get cfg key =
                      (case dict_get override key of
                         Some v \<Rightarrow> Some v
                       | None \<Rightarrow> dict_get (default_config env) key)))) \<and>
   (files fs config_path = NoFile \<and> \<not> write_denied fs config_path \<longrightarrow>
      load_config L env config_path fs =
        (Inr (default_config env),
         fs\<lparr>files := (files fs)(config_path := JsonObject (default_config env))\<rparr>,
         [LogInfo (lit ''Config file not found, using default config'')]))"
  by (simp add: load_config_def dict_get_dict_update)

theorem load_config_merge_witness:
  "files suivi_files (lit ''config.json'') = JsonObject suivi_override \<and>
   distinct (map fst suivi_override) \<and>
   (\<exists>cfg. load_config plain_lib no_env (lit ''config.json'') suivi_files
            = (Inr cfg, suivi_files, []) \<and>
          dict_get cfg (lit ''sheet_name'') = Some (JStr (lit ''Suivi'')) \<and>
          dict_get cfg (lit ''google_creds_path'') = Some (JStr (lit ''credentials.json''))) \<and>
   files suivi_files (lit ''autre.json'') = NoFile \<and>
   \<not> write_denied suivi_files (lit ''autre.json'') \<and>
   fst (load_config plain_lib no_env (lit ''autre.json'') suivi_files)
     = Inr (default_config no_env) \<and>
   files (fst (snd (load_config plain_lib no_env (lit ''autre.json'') suivi_files)))
     (lit ''autre.json'') = JsonObject (default_config no_env)"
proof -
  have f: "files suivi_files (lit ''config.json'') = JsonObject suivi_override"
    by (simp add: suivi_files_def)
  have d: "distinct (map fst suivi_override)"
    by (simp add: suivi_override_def)
  have a: "files suivi_files (lit ''autre.json'') = NoFile"
    by (simp add: suivi_files_def lit_def)
  have w: "\<not> write_denied suivi_files (lit ''autre.json'')"
    by (simp add: suivi_files_def)
  have k1: "dict_get suivi_override (lit ''sheet_name'') = Some (JStr (lit ''Suivi''))"
    by (simp add: suivi_override_def dict_get_def)
  have k2: "dict_get suivi_override (lit ''google_creds_path'') = None"
    by (simp add: suivi_override_def dict_get_def lit_def)
  have k3: "dict_get (default_config no_env) (lit ''google_creds_path'')
              = Some (JStr (lit ''credentials.json''))"
    by (simp add: default_config_def dict_get_def getenv_def no_env_def lit_def)
  from load_config_merge [of suivi_files "lit ''config.json''" suivi_override plain_lib no_env]
    f d obtain cfg where
    c: "load_config plain_lib no_env (lit ''config.json'') suivi_files = (Inr cfg, suivi_files, [])"
    and m: "\<forall>key. dict_get cfg key =
                (case dict_get suivi_override key of
                   Some v \<Rightarrow> Some v
                 | None \<Rightarrow> dict_get (default_config no_env) key)"
    by blast
  from m k1 have c1: "dict_get cfg (lit ''sheet_name'') = Some (JStr (lit ''Suivi''))"
    by simp
  from m k2 k3 have c2:
    "dict_get cfg (lit ''google_creds_path'') = Some (JStr (lit ''credentials.json''))"
    by simp
  from load_config_merge [of suivi_files "lit ''autre.json''" suivi_override plain_lib no_env]
    a w have n: "load_config plain_lib no_env (lit ''autre.json'') suivi_files =
        (Inr (default_config no_env),
         suivi_files\<lparr>files := (files suivi_files)
            (lit ''autre.json'' := JsonObject (default_config no_env))\<rparr>,
         [LogInfo (lit ''Config file not found, using default config'')])"
    by blast
  from f d c c1 c2 a w n show ?thesis
    by simp
qed


section \<open>Adding a project\<close>

lemma sheet_call_Inr:
  "sheet_call request s = (Inr a, s1) \<Longrightarrow> grid s1 = snd (request (grid s))"
  by (auto simp: sheet_call_def split: list.splits bool.splits prod.splits)

lemma sheet_call_Inl:
  "sheet_call request s = (Inl e, s1) \<Longrightarrow> grid s1 = grid s"
  by (auto simp: sheet_call_def split: list.splits bool.splits prod.splits)

lemma grid_logger: "grid (logger r s) = grid s"
  by (simp add: logger_def)

lemma grid_refresh_projects_cache: "grid (refresh_projects_cache L s) = grid s"
  using get_all_projects_grid [of L s]
  by (cases "get_all_projects L s") (simp add: refresh_projects_cache_def)

lemma row_data_Inr:
  assumes "row_data L nom_projet description priorite deadline notes
             project_analysis planning_advice project_summary current_date = Inr row"
  shows "\<exists>analysis summary.
           project_analysis = Text analysis \<and> project_summary = Text summary \<and>
           row = [CStr nom_projet, CStr a_faire, CInt priorite, CStr description,
                  CStr (prochaine_action L analysis), CStr deadline,
                  CStr current_date, CStr current_date, CInt 0, CStr [], CInt 0,
                  CStr (notes @ analyse_ia @ take 200 summary @ lit ''...'')]"
  using assms by (auto simp: row_data_def split: if_splits reply.splits)

lemma row_data_texts:
  assumes "planning_advice \<noteq> Raised"
  shows "\<exists>row. row_data L nom_projet description priorite deadline notes
             (Text analysis) planning_advice (Text summary) current_date = Inr row"
  using assms by (simp add: row_data_def)

lemma ajouter_projet_failed:
  assumes "ajouter_projet L nom_projet description priorite deadline notes
             project_analysis planning_advice project_summary current_date s
           = (AddFailed n e, s')"
  shows "grid s' = grid s"
  using assms
  by (auto simp: ajouter_projet_def grid_logger dest: sheet_call_Inl
      split: sum.splits prod.splits)

lemma ajouter_projet_added:
  assumes "ajouter_projet L nom_projet description priorite deadline notes
             project_analysis planning_advice project_summary current_date s
           = (Added n a p m, s')"
  shows "\<exists>row. row_data L nom_projet description priorite deadline notes
                  project_analysis planning_advice project_summary current_date = Inr row \<and>
               grid s' = rev (dropWhile blank_row (rev (grid s))) @ [row]"
  using assms
  by (auto simp: ajouter_projet_def grid_logger grid_refresh_projects_cache append_row_def
      dest!: sheet_call_Inr split: sum.splits prod.splits)

lemma ajouter_projet_ok:
  assumes "planning_advice \<noteq> Raised" and "True \<notin> set (faults s)"
  shows "fst (ajouter_projet L nom_projet description priorite deadline notes
               (Text analysis) planning_advice (Text summary) current_date s)
           = Added nom_projet (Text analysis) planning_advice (Text summary)"
proof -
  from row_data_texts [OF assms(1)] obtain row where
    "row_data L nom_projet description priorite deadline notes
       (Text analysis) planning_advice (Text summary) current_date = Inr row"
    by blast
  then show ?thesis
    using sheet_call_ok [OF assms(2), of "append_row row"]
    by (simp add: ajouter_projet_def)
qed

lemma headers_row_not_blank:
  "rev (dropWhile blank_row (rev [map CStr headers])) = [map CStr headers]"
  by (simp add: blank_row_def blank_def headers_def lit_def)

lemma cell_at_last_row:
  "1 \<le> c \<Longrightarrow> c \<le> length row \<Longrightarrow> cell_at (g @ [row]) (Suc (length g)) c = row ! (c - 1)"
  by (simp add: cell_at_def nth_append)

lemma analyse_ia_not_empty: "analyse_ia \<noteq> []"
  by (simp add: analyse_ia_def)

text \<open>
  C7. A call of \<open>ajouter_projet\<close> either fails and leaves the sheet as it is, or reports
  success, and then the sheet is the old one (without blank rows at its end) followed
  by one new row of 12 cells: the name, the status \<open>A faire\<close> (with a grave accent on
  the A), the date of the call as creation date and as date of the last update, 0 days
  of stagnation and 0 as progression. The call reports success whenever the research
  agent and the writer agent answer texts, the planner does not raise, and the request
  to the service succeeds.
\<close>

theorem ajouter_projet_row:
  "(case ajouter_projet L nom_projet description priorite deadline notes
           project_analysis planning_advice project_summary current_date s of
      (Added n a p m, s') \<Rightarrow>
        (\<exists>row. grid s' = rev (dropWhile blank_row (rev (grid s))) @ [row] \<and>
               length row = 12 \<and>
               row ! 0 = CStr nom_projet \<and>
               row ! 1 = CStr a_faire \<and>
               row ! 6 = CStr current_date \<and>
               row ! 7 = CStr current_date \<and>
               row ! 8 = CInt 0 \<and>
               row ! 10 = CInt 0)
    | (AddFailed n e, s') \<Rightarrow> grid s' = grid s) \<and>
   ((\<exists>analysis. project_analysis = Text analysis) \<and> planning_advice \<noteq> Raised \<and>
    (\<exists>summary. project_summary = Text summary) \<and> True \<notin> set (faults s) \<longrightarrow>
      fst (ajouter_projet L nom_projet description priorite deadline notes
             project_analysis planning_advice project_summary current_date s)
        = Added nom_projet project_analysis planning_advice project_summary)"
proof (intro conjI impI)
  obtain res s' where r: "ajouter_projet L nom_projet description priorite deadline notes
      project_analysis planning_advice project_summary current_date s = (res, s')"
    by (cases "ajouter_projet L nom_projet description priorite deadline notes
      project_analysis planning_advice project_summary current_date s")
  show "case ajouter_projet L nom_projet description priorite deadline notes
           project_analysis planning_advice project_summary current_date s of
      (Added n a p m, s') \<Rightarrow>
        (\<exists>row. grid s' = rev (dropWhile blank_row (rev (grid s))) @ [row] \<and>
               length row = 12 \<and>
               row ! 0 = CStr nom_projet \<and>
               row ! 1 = CStr a_faire \<and>
               row ! 6 = CStr current_date \<and>
               row ! 7 = CStr current_date \<and>
               row ! 8 = CInt 0 \<and>
               row ! 10 = CInt 0)
    | (AddFailed n e, s') \<Rightarrow> grid s' = grid s"
  proof (cases res)
    case (Added n a p m)
    with r ajouter_projet_added obtain row where
      d: "row_data L nom_projet description priorite deadline notes
            project_analysis planning_advice project_summary current_date = Inr row" and
      g: "grid s' = rev (dropWhile blank_row (rev (grid s))) @ [row]"
      by blast
    from row_data_Inr [OF d] have
      "length row = 12 \<and> row ! 0 = CStr nom_projet \<and> row ! 1 = CStr a_faire \<and>
       row ! 6 = CStr current_date \<and> row ! 7 = CStr current_date \<and>
       row ! 8 = CInt 0 \<and> row ! 10 = CInt 0"
      by auto
    with g r Added show ?thesis by auto
  next
    case (AddFailed n e)
    with r ajouter_projet_failed have "grid s' = grid s" by blast
    with r AddFailed show ?thesis by simp
  qed
next
  assume "(\<exists>analysis. project_analysis = Text analysis) \<and> planning_advice \<noteq> Raised \<and>
    (\<exists>summary. project_summary = Text summary) \<and> True \<notin> set (faults s)"
  then show "fst (ajouter_projet L nom_projet description priorite deadline notes
             project_analysis planning_advice project_summary current_date s)
        = Added nom_projet project_analysis planning_advice project_summary"
    using ajouter_projet_ok by auto
qed

theorem ajouter_projet_row_witness:
  "True \<notin> set (faults site_web_agent) \<and>
   fst ajouter_site_web
     = Added (lit ''Site web'') (Text (lit ''Action : lister les pages''))
         (Text (lit ''Planning'')) (Text (lit ''Resume'')) \<and>
   length (grid (snd ajouter_site_web)) = 2 \<and>
   cell_at (grid (snd ajouter_site_web)) 2 1 = CStr (lit ''Site web'') \<and>
   cell_at (grid (snd ajouter_site_web)) 2 2 = CStr a_faire \<and>
   cell_at (grid (snd ajouter_site_web)) 2 7 = CStr (lit ''2025-01-01'') \<and>
   cell_at (grid (snd ajouter_site_web)) 2 8 = CStr (lit ''2025-01-01'') \<and>
   cell_at (grid (snd ajouter_site_web)) 2 9 = CInt 0 \<and>
   cell_at (grid (snd ajouter_site_web)) 2 11 = CInt 0"
proof -
  have ok: "True \<notin> set (faults site_web_agent)"
    by (simp add: site_web_agent_def agent_with_def)
  have g0: "grid site_web_agent = [map CStr headers]"
    by (simp add: site_web_agent_def agent_with_def)
  note t = ajouter_projet_row [where L = plain_lib and nom_projet = "lit ''Site web''"
      and description = "lit ''Refonte''" and priorite = 1 and deadline = "lit ''2025-12-01''"
      and ?notes = "lit ''vitrine''" and project_analysis = "Text (lit ''Action : lister les pages'')"
      and planning_advice = "Text (lit ''Planning'')" and project_summary = "Text (lit ''Resume'')"
      and current_date = "lit ''2025-01-01''" and s = site_web_agent,
      folded ajouter_site_web_def]
  from t ok have added: "fst ajouter_site_web
     = Added (lit ''Site web'') (Text (lit ''Action : lister les pages''))
         (Text (lit ''Planning'')) (Text (lit ''Resume''))"
    by simp
  define s' where "s' = snd ajouter_site_web"
  from added have r: "ajouter_site_web
     = (Added (lit ''Site web'') (Text (lit ''Action : lister les pages''))
         (Text (lit ''Planning'')) (Text (lit ''Resume'')), s')"
    by (simp add: prod_eq_iff s'_def)
  from t [THEN conjunct1] have
    "\<exists>row. grid s' = rev (dropWhile blank_row (rev (grid site_web_agent))) @ [row] \<and>
       length row = 12 \<and> row ! 0 = CStr (lit ''Site web'') \<and> row ! 1 = CStr a_faire \<and>
       row ! 6 = CStr (lit ''2025-01-01'') \<and> row ! 7 = CStr (lit ''2025-01-01'') \<and>
       row ! 8 = CInt 0 \<and> row ! 10 = CInt 0"
    unfolding r by (simp only: prod.case add_result.case)
  then obtain row where
    g: "grid s' = [map CStr headers] @ [row]" and l: "length row = 12" and
    c: "row ! 0 = CStr (lit ''Site web'')" "row ! 1 = CStr a_faire"
       "row ! 6 = CStr (lit ''2025-01-01'')" "row ! 7 = CStr (lit ''2025-01-01'')"
       "row ! 8 = CInt 0" "row ! 10 = CInt 0"
    unfolding g0 headers_row_not_blank by blast
  have cells: "length (grid s') = 2"
    "cell_at (grid s') 2 1 = CStr (lit ''Site web'')"
    "cell_at (grid s') 2 2 = CStr a_faire"
    "cell_at (grid s') 2 7 = CStr (lit ''2025-01-01'')"
    "cell_at (grid s') 2 8 = CStr (lit ''2025-01-01'')"
    "cell_at (grid s') 2 9 = CInt 0"
    "cell_at (grid s') 2 11 = CInt 0"
    using c l by (simp_all add: g cell_at_def)
  from ok added cells show ?thesis
    unfolding s'_def by simp
qed

text \<open>
  C10. The notes cell of the row that a successful \<open>ajouter_projet\<close> appends (column 12
  of the last row) holds the caller's notes, then two line feeds and the marker
  \<open>Analyse IA : \<close>, then the first 200 characters of the writer agent's summary, then
  three dots; it is never the caller's notes alone. A failed call writes nothing.
\<close>

theorem ajouter_projet_notes:
  "case ajouter_projet L nom_projet description priorite deadline notes
          project_analysis planning_advice project_summary current_date s of
     (Added n a p m, s') \<Rightarrow>
       (\<exists>summary. project_summary = Text summary \<and>
          cell_at (grid s') (length (grid s')) 12
            = CStr (notes @ analyse_ia @ take 200 summary @ lit ''...'') \<and>
          cell_at (grid s') (length (grid s')) 12 \<noteq> CStr notes)
   | (AddFailed n e, s') \<Rightarrow> grid s' = grid s"
proof -
  obtain res s' where r: "ajouter_projet L nom_projet description priorite deadline notes
      project_analysis planning_advice project_summary current_date s = (res, s')"
    by (cases "ajouter_projet L nom_projet description priorite deadline notes
      project_analysis planning_advice project_summary current_date s")
  show ?thesis
  proof (cases res)
    case (Added n a p m)
    with r ajouter_projet_added obtain row where
      d: "row_data L nom_projet description priorite deadline notes
            project_analysis planning_advice project_summary current_date = Inr row" and
      g: "grid s' = rev (dropWhile blank_row (rev (grid s))) @ [row]"
      by blast
    from row_data_Inr [OF d] obtain summary where
      t: "project_summary = Text summary" and l: "length row = 12" and
      n: "row ! 11 = CStr (notes @ analyse_ia @ take 200 summary @ lit ''...'')"
      by auto
    have "cell_at (grid s') (length (grid s')) 12 = row ! 11"
      using cell_at_last_row [of 12 row "rev (dropWhile blank_row (rev (grid s)))"] g l
      by simp
    with n t r Added show ?thesis
      by (simp add: analyse_ia_not_empty)
  next
    case (AddFailed n e)
    with r ajouter_projet_failed have "grid s' = grid s" by blast
    with r AddFailed show ?thesis by simp
  qed
qed

theorem ajouter_projet_notes_witness:
  "fst ajouter_site_web
     = Added (lit ''Site web'') (Text (lit ''Action : lister les pages''))
         (Text (lit ''Planning'')) (Text (lit ''Resume'')) \<and>
   cell_at (grid (snd ajouter_site_web)) (length (grid (snd ajouter_site_web))) 12
     = CStr (lit ''vitrine'' @ [10, 10] @ lit ''Analyse IA : Resume...'')"
proof -
  have ok: "True \<notin> set (faults site_web_agent)"
    by (simp add: site_web_agent_def agent_with_def)
  have added: "fst ajouter_site_web
     = Added (lit ''Site web'') (Text (lit ''Action : lister les pages''))
         (Text (lit ''Planning'')) (Text (lit ''Resume''))"
    unfolding ajouter_site_web_def by (rule ajouter_projet_ok [OF _ ok]) simp
  define s' where "s' = snd ajouter_site_web"
  from added have r: "ajouter_site_web
     = (Added (lit ''Site web'') (Text (lit ''Action : lister les pages''))
         (Text (lit ''Planning'')) (Text (lit ''Resume'')), s')"
    by (simp add: prod_eq_iff s'_def)
  have stored: "lit ''vitrine'' @ analyse_ia @ take 200 (lit ''Resume'') @ lit ''...''
          = lit ''vitrine'' @ [10, 10] @ lit ''Analyse IA : Resume...''"
    by (simp add: analyse_ia_def lit_def)
  from ajouter_projet_notes [where L = plain_lib and nom_projet = "lit ''Site web''"
      and description = "lit ''Refonte''" and priorite = 1 and deadline = "lit ''2025-12-01''"
      and ?notes = "lit ''vitrine''" and project_analysis = "Text (lit ''Action : lister les pages'')"
      and planning_advice = "Text (lit ''Planning'')" and project_summary = "Text (lit ''Resume'')"
      and current_date = "lit ''2025-01-01''" and s = site_web_agent,
      folded ajouter_site_web_def]
  have "\<exists>summary. Text (lit ''Resume'') = Text summary \<and>
          cell_at (grid s') (length (grid s')) 12
            = CStr (lit ''vitrine'' @ analyse_ia @ take 200 summary @ lit ''...'') \<and>
          cell_at (grid s') (length (grid s')) 12 \<noteq> CStr (lit ''vitrine'')"
    unfolding r by (simp only: prod.case add_result.case)
  then have "cell_at (grid s') (length (grid s')) 12
      = CStr (lit ''vitrine'' @ analyse_ia @ take 200 (lit ''Resume'') @ lit ''...'')"
    by auto
  with added show ?thesis
    unfolding stored s'_def by simp
qed


section \<open>Searching projects\<close>

text \<open>\<open>py_in\<close> is the substring test.\<close>

lemma py_in_substring: "py_in sub s \<longleftrightarrow> (\<exists>pre post. s = pre @ sub @ post)"
proof (induction s)
  case Nil
  show ?case by auto
next
  case (Cons c cs)
  show ?case
  proof
    assume "py_in sub (c # cs)"
    then consider "take (length sub) (c # cs) = sub" | "py_in sub cs" by auto
    then show "\<exists>pre post. c # cs = pre @ sub @ post"
    proof cases
      case 1
      have "take (length sub) (c # cs) @ drop (length sub) (c # cs) = c # cs"
        by (rule append_take_drop_id)
      with 1 have "c # cs = [] @ sub @ drop (length sub) (c # cs)"
        by simp
      then show ?thesis by blast
    next
      case 2
      with Cons.IH obtain pre post where "cs = pre @ sub @ post" by blast
      then have "c # cs = (c # pre) @ sub @ post" by simp
      then show ?thesis by blast
    qed
  next
    assume "\<exists>pre post. c # cs = pre @ sub @ post"
    then obtain pre post where e: "c # cs = pre @ sub @ post" by blast
    show "py_in sub (c # cs)"
    proof (cases pre)
      case Nil
      with e have "take (length sub) (c # cs) = sub" by simp
      then show ?thesis by simp
    next
      case (Cons a pre')
      with e have "cs = pre' @ sub @ post" by simp
      with Cons.IH have "py_in sub cs" by blast
      then show ?thesis by simp
    qed
  qed
qed

text \<open>
  When the three fields of every project are texts or missing, the loop of
  \<open>rechercher_projet\<close> returns, in their order, the projects of which one of the three
  lower-cased fields contains the lower-cased query.
\<close>

lemma project_matches_texts:
  assumes "field_lower L project (lit ''Nom_Projet'') = Inr nom"
      and "field_lower L project (lit ''Description'') = Inr description"
      and "field_lower L project (lit ''Notes'') = Inr notes"
  shows "project_matches L query_lower project =
           Inr (py_in query_lower nom \<or> py_in query_lower description \<or>
                py_in query_lower notes)"
  using assms by (simp add: project_matches_def)

lemma search_projects_filter:
  assumes "\<forall>project \<in> set projects. \<exists>found. project_matches L query_lower project = Inr found"
  shows "search_projects L query_lower projects results =
           Inr (results @ filter (\<lambda>project. project_matches L query_lower project = Inr True)
                            projects)"
  using assms
proof (induction projects arbitrary: results)
  case Nil
  show ?case by simp
next
  case (Cons p ps)
  from Cons.prems obtain found where f: "project_matches L query_lower p = Inr found"
    by auto
  from Cons.prems have rest:
    "\<forall>project \<in> set ps. \<exists>found. project_matches L query_lower project = Inr found"
    by simp
  show ?case
    using f Cons.IH [OF rest] by (cases found) simp_all
qed

lemma bilan_records:
  "get_all_records plain_lib [map CStr headers, bilan] = [zip headers bilan]"
  by (simp add: plain_lib_def table_records_def blank_row_def blank_def headers_def bilan_def
      pad_def lit_def)

lemma agent_with_fields:
  "faults (agent_with cfg g) = []" "grid (agent_with cfg g) = g"
  "logged (agent_with cfg g) = []" "config (agent_with cfg g) = cfg"
  by (simp_all add: agent_with_def)

lemma get_all_projects_agent_with:
  "get_all_projects L (agent_with cfg g) = (get_all_records L g, agent_with cfg g)"
  by (simp add: get_all_projects_def sheet_call_def agent_with_def)

lemma bilan_fields:
  "dict_get (zip headers bilan) (lit ''Nom_Projet'') = Some (CStr (lit ''Bilan''))"
  "dict_get (zip headers bilan) (lit ''Statut'') = Some (CStr (lit ''En cours''))"
  "dict_get (zip headers bilan) (lit ''Description'') = Some (CInt 2025)"
  "dict_get (zip headers bilan) (lit ''Jours_Stagnation'') = Some (CInt 5)"
  by (simp_all add: dict_get_def headers_def bilan_def lit_def)

text \<open>
  C8 fails on a sheet where a cell of one of the three fields holds a number:
  \<open>get_all_records\<close> gives the number itself, \<open>.lower()\<close> raises AttributeError on it, and
  \<open>rechercher_projet\<close> does not catch it. Here the description of the only project is
  the number 2025 and the query \<open>site\<close> matches nothing, yet the call does not return
  the empty list.
\<close>

theorem rechercher_projet_number_cell:
  "dict_get (zip headers bilan) (lit ''Description'') = Some (CInt 2025) \<and>
   get_all_records plain_lib (grid (agent_with (default_config no_env) [map CStr headers, bilan]))
     = [zip headers bilan] \<and>
   fst (rechercher_projet plain_lib (lit ''site'')
          (agent_with (default_config no_env) [map CStr headers, bilan]))
     = Inl AttributeError"
proof -
  have q: "py_lower plain_lib (lit ''site'') = lit ''site''"
    by (simp add: py_lower_def lit_def ascii_lower_def)
  have n: "py_lower plain_lib (lit ''Bilan'') = lit ''bilan''"
    by (simp add: py_lower_def lit_def ascii_lower_def)
  have i: "\<not> py_in (lit ''site'') (lit ''bilan'')"
    by (simp add: lit_def)
  have m: "project_matches plain_lib (lit ''site'') (zip headers bilan) = Inl AttributeError"
    by (simp add: project_matches_def field_lower_def bilan_fields n i)
  have g: "grid (agent_with (default_config no_env) [map CStr headers, bilan])
             = [map CStr headers, bilan]"
    by (simp add: agent_with_def)
  show ?thesis
    by (simp add: g bilan_fields bilan_records rechercher_projet_def
        get_all_projects_agent_with q m)
qed


section \<open>The periodic monitor\<close>

text \<open>
  The example of the specification: with \<open>En cours\<close> and 10 days of stagnation the
  sweep logs one warning with one line that holds the name and the number of days; the
  finished project with 30 days gives no line.
\<close>

lemma monitor_projects_example:
  "logged (monitor_projects plain_lib
             (agent_with (default_config no_env) [map CStr headers, site_web, archive]))
     = [LogWarning (alerts_found @ [9888] @ lit '' Site web : 10 jours sans mise '' @ [224] @
                    lit '' jour'')]"
proof -
  have r: "get_all_records plain_lib [map CStr headers, site_web, archive]
             = [zip headers site_web, zip headers archive]"
    by (simp add: plain_lib_def table_records_def blank_row_def blank_def headers_def
        site_web_def archive_def pad_def lit_def termine_def)
  have f: "dict_get (zip headers site_web) (lit ''Statut'') = Some (CStr (lit ''En cours''))"
    "dict_get (zip headers site_web) (lit ''Jours_Stagnation'') = Some (CInt 10)"
    "dict_get (zip headers archive) (lit ''Statut'') = Some (CStr termine)"
    by (simp_all add: dict_get_def headers_def site_web_def archive_def lit_def)
  have t: "lit ''En cours'' \<noteq> termine" "lit ''En cours'' \<noteq> annule"
    by (simp_all add: termine_def annule_def lit_def)
  have l: "alert_line plain_lib (CStr (lit ''Site web'')) (CInt 10)
             = [9888] @ lit '' Site web : 10 jours sans mise '' @ [224] @ lit '' jour''"
    by (simp add: alert_line_def py_str_def str_int_def str_nat.simps lit_def)
  have a: "collect_alerts plain_lib [zip headers site_web, zip headers archive] []
             = Inr [alert_line plain_lib (CStr (lit ''Site web'')) (CInt 10)]"
    by (simp add: f t site_web_name stagnant_def)
  have "monitor_projects plain_lib
          (agent_with (default_config no_env) [map CStr headers, site_web, archive])
        = logger (LogWarning (alerts_found @
                    alert_line plain_lib (CStr (lit ''Site web'')) (CInt 10)))
            (agent_with (default_config no_env) [map CStr headers, site_web, archive])"
    unfolding monitor_projects_def get_all_projects_agent_with r prod.case a
    by simp
  then show ?thesis
    unfolding l by (simp add: logger_def agent_with_fields)
qed

text \<open>
  C1 fails where the configured threshold is not 7: \<open>monitor_projects\<close> compares the
  days of stagnation with the literal 7 and never reads \<open>stagnation_alert_days\<close>. With
  the threshold configured as 3, a project in progress with 5 days of stagnation gives
  no alert: the sweep logs nothing.
\<close>

theorem monitor_projects_fixed_threshold:
  "dict_get seuil_3 (lit ''monitoring'')
     = Some (JObject [(lit ''check_interval_hours'', JInt 24),
                      (lit ''stagnation_alert_days'', JInt 3),
                      (lit ''urgent_alert_days'', JInt 14)]) \<and>
   get_all_records plain_lib (grid (agent_with seuil_3 [map CStr headers, bilan]))
     = [zip headers bilan] \<and>
   dict_get (zip headers bilan) (lit ''Statut'') = Some (CStr (lit ''En cours'')) \<and>
   dict_get (zip headers bilan) (lit ''Jours_Stagnation'') = Some (CInt 5) \<and>
   logged (monitor_projects plain_lib (agent_with seuil_3 [map CStr headers, bilan])) = []"
proof -
  have c: "dict_get seuil_3 (lit ''monitoring'')
     = Some (JObject [(lit ''check_interval_hours'', JInt 24),
                      (lit ''stagnation_alert_days'', JInt 3),
                      (lit ''urgent_alert_days'', JInt 14)])"
    by (simp add: seuil_3_def dict_get_dict_set)
  have g: "grid (agent_with seuil_3 [map CStr headers, bilan]) = [map CStr headers, bilan]"
    by (simp add: agent_with_def)
  have t: "lit ''En cours'' \<noteq> termine" "lit ''En cours'' \<noteq> annule"
    by (simp_all add: termine_def annule_def lit_def)
  have a: "collect_alerts plain_lib [zip headers bilan] [] = Inr []"
    by (simp add: bilan_fields t stagnant_def)
  have "monitor_projects plain_lib (agent_with seuil_3 [map CStr headers, bilan])
          = agent_with seuil_3 [map CStr headers, bilan]"
    unfolding monitor_projects_def get_all_projects_agent_with bilan_records prod.case a
    by simp
  then have "logged (monitor_projects plain_lib (agent_with seuil_3 [map CStr headers, bilan])) = []"
    by (simp add: agent_with_fields)
  with c g show ?thesis
    by (simp add: bilan_fields bilan_records)
qed

end
